theory Spec2Isabelle
  imports Main
begin

section \<open>The extension-host search dispatcher (extHostSearch.ts)\<close>

text \<open>
  A shallow embedding of the class \<open>ExtHostSearch\<close> and of the two module functions
  \<open>reviveQuery\<close> and \<open>reviveFolderQuery\<close>.

  \<^item> The private fields of the class are the fields of the record \<open>ext_host_search\<close>
    (the leading underscore of the source names is dropped); a method that assigns to
    them takes the record and returns the new one.
  \<^item> The three \<open>Map<number, provider>\<close> fields are partial maps from handles to providers.
  \<^item> \<open>_handlePool\<close> is a \<open>nat\<close>: the counter starts at 0 and only \<open>_handlePool++\<close>
    touches it. (A JavaScript number is exact on the integers below \<open>2^53\<close>; the model
    is the counter on that range.)
  \<^item> A field that is \<open>undefined\<close> or \<open>null\<close> in the source is \<open>None\<close>.
  \<^item> Every call on \<open>_proxy\<close>, on \<open>_logService\<close> and on a cache is an entry of a list of
    calls, oldest first.
  \<^item> A disposable returned by a \<open>register...\<close> method is a value that names the closure
    and carries the handle it captured; \<open>dispose\<close> runs the body of the closure.
\<close>

subsection \<open>Resource identifiers\<close>

text \<open>
  \<open>UriComponents\<close> is the portable form of a resource identifier, \<open>URI\<close> the revived
  form. The module \<open>vs/base/common/uri\<close> is not part of the sources at hand.
\<close>

record uri_components =
  c_scheme :: string
  c_authority :: string
  c_path :: string
  c_query :: string
  c_fragment :: string

datatype uri = URI (scheme: string) (authority: string) (uri_path: string)
  (uri_query: string) (fragment: string)

text \<open>
  Modelled from the spec: \<open>URI.revive\<close> of the missing module
  \<open>vs/base/common/uri\<close>. The spec says of revival that every
  folder root "is reconstituted into a resolvable resource identifier", "distinct from
  the transport-safe form but comparably equal to the intended resource identifier":
  the revived identifier has the five components of the portable form, and is a value
  of another type.
\<close>

definition URI_revive :: "uri_components \<Rightarrow> uri" where
  "URI_revive data =
     URI (c_scheme data) (c_authority data) (c_path data) (c_query data) (c_fragment data)"

text \<open>
  Modelled from the spec: \<open>URI.toJSON\<close> of the missing module \<open>vs/base/common/uri\<close>, the
  portable form that travels on the wire and that revival reads: the five components of
  the resource identifier.
\<close>

definition URI_toJSON :: "uri \<Rightarrow> uri_components" where
  "URI_toJSON u =
     \<lparr>c_scheme = scheme u, c_authority = authority u, c_path = uri_path u,
      c_query = uri_query u, c_fragment = fragment u\<rparr>"

subsection \<open>Queries\<close>

text \<open>
  The interfaces \<open>IFolderQuery\<close>, \<open>IRawSearchQuery\<close> and \<open>ISearchQuery\<close> are declared in
  \<open>vs/platform/search/common/search\<close>, outside the sources at hand. The records below
  have the fields that extHostSearch.ts reads; every other property of an object
  travels in the extension slot of the record (\<open>more\<close>), which the object spread
  \<open>...rawQuery\<close> copies. A property that may be missing is an \<open>option\<close>. The types of
  glob expressions, patterns and preview options are opaque to this file.
\<close>

type_synonym glob_expression = "string list"

datatype pattern_info = PatternInfo string

datatype preview_options = PreviewOptions nat nat

record 'u folder_query =
  folder :: 'u
  fq_excludePattern :: "glob_expression option"
  fq_includePattern :: "glob_expression option"
  fq_fileEncoding :: "string option"
  fq_disregardIgnoreFiles :: "bool option"
  fq_disregardGlobalIgnoreFiles :: "bool option"

record 'u search_query =
  folderQueries :: "'u folder_query list option"
  extraFileResources :: "'u list option"
  ignoreSymlinks :: "bool option"
  filePattern :: "string option"
  excludePattern :: "glob_expression option"
  includePattern :: "glob_expression option"
  contentPattern :: "pattern_info option"
  maxResults :: "int option"
  exists :: "bool option"
  sortByScore :: "bool option"
  cacheKey :: "string option"
  maxFileSize :: "int option"
  useRipgrep :: "bool option"
  disregardIgnoreFiles :: "bool option"
  previewOptions :: "preview_options option"
  disregardGlobalIgnoreFiles :: "bool option"

text \<open>
  \<^verbatim>\<open>
  function reviveFolderQuery(rawFolderQuery) {
      return { ...rawFolderQuery, folder: URI.revive(rawFolderQuery.folder) };
  }
  function reviveQuery(rawQuery) {
      return { ...rawQuery, ...{
          folderQueries: rawQuery.folderQueries && rawQuery.folderQueries.map(reviveFolderQuery),
          extraFileResources: rawQuery.extraFileResources
              && rawQuery.extraFileResources.map(components => URI.revive(components)) } };
  }
  \<close>
  The spread copies every property; the two named properties are then overwritten.
  \<open>x && x.map(f)\<close> is \<open>map_option (map f) x\<close>: a missing list stays missing.
\<close>

definition reviveFolderQuery ::
  "(uri_components, 'z) folder_query_scheme \<Rightarrow> (uri, 'z) folder_query_scheme" where
  "reviveFolderQuery rawFolderQuery =
     \<lparr>folder = URI_revive (folder rawFolderQuery),
      fq_excludePattern = fq_excludePattern rawFolderQuery,
      fq_includePattern = fq_includePattern rawFolderQuery,
      fq_fileEncoding = fq_fileEncoding rawFolderQuery,
      fq_disregardIgnoreFiles = fq_disregardIgnoreFiles rawFolderQuery,
      fq_disregardGlobalIgnoreFiles = fq_disregardGlobalIgnoreFiles rawFolderQuery,
      \<dots> = folder_query.more rawFolderQuery\<rparr>"

definition reviveQuery ::
  "(uri_components, 'z) search_query_scheme \<Rightarrow> (uri, 'z) search_query_scheme" where
  "reviveQuery rawQuery =
     \<lparr>folderQueries = map_option (map reviveFolderQuery) (folderQueries rawQuery),
      extraFileResources =
        map_option (map (\<lambda>components. URI_revive components)) (extraFileResources rawQuery),
      ignoreSymlinks = ignoreSymlinks rawQuery,
      filePattern = filePattern rawQuery,
      excludePattern = excludePattern rawQuery,
      includePattern = includePattern rawQuery,
      contentPattern = contentPattern rawQuery,
      maxResults = maxResults rawQuery,
      exists = exists rawQuery,
      sortByScore = sortByScore rawQuery,
      cacheKey = cacheKey rawQuery,
      maxFileSize = maxFileSize rawQuery,
      useRipgrep = useRipgrep rawQuery,
      disregardIgnoreFiles = disregardIgnoreFiles rawQuery,
      previewOptions = previewOptions rawQuery,
      disregardGlobalIgnoreFiles = disregardGlobalIgnoreFiles rawQuery,
      \<dots> = search_query.more rawQuery\<rparr>"

subsection \<open>Providers and calls\<close>

text \<open>
  A provider is an object supplied by an extension; the model keeps its identity. Of a
  text provider the dispatcher also reads the property \<open>provideTextSearchResults\<close>,
  which may be missing. The internal provider is a \<open>SearchService\<close> (declared in
  \<open>rawSearchService\<close>, outside the sources at hand): \<open>fileSearch\<close> is the event stream
  it produces for a query, \<open>caches\<close> the cache keys it holds.
\<close>

datatype text_search_impl = TextSearchImpl nat

record text_search_provider =
  text_provider_id :: nat
  provideTextSearchResults :: "text_search_impl option"

datatype file_search_provider = FileSearchProvider nat

datatype file_index_provider = FileIndexProvider nat

record folder_search =
  fs_disregardGlobalIgnoreFiles :: "bool option"
  fs_disregardIgnoreFiles :: "bool option"
  fs_excludePattern :: "glob_expression option"
  fs_fileEncoding :: "string option"
  fs_folder :: string
  fs_includePattern :: "glob_expression option"

record raw_search =
  raw_folderQueries :: "folder_search list"
  raw_ignoreSymlinks :: "bool option"
  raw_filePattern :: "string option"
  raw_excludePattern :: "glob_expression option"
  raw_includePattern :: "glob_expression option"
  raw_contentPattern :: "pattern_info option"
  raw_maxResults :: "int option"
  raw_exists :: "bool option"
  raw_sortByScore :: "bool option"
  raw_cacheKey :: "string option"
  raw_maxFilesize :: "int option"
  raw_useRipgrep :: "bool option"
  raw_disregardIgnoreFiles :: "bool option"
  raw_previewOptions :: "preview_options option"
  raw_disregardGlobalIgnoreFiles :: "bool option"

text \<open>
  The statistics of a successful search and a serialized file match, as far as this
  file reads them.
\<close>

record search_complete_stats =
  limitHit :: bool
  resultCount :: nat

datatype serialized_file_match = SerializedFileMatch (path: string)

text \<open>
  Modelled from the spec: the event type of the internal engine,
  \<open>ISerializedSearchProgressItem | ISerializedSearchComplete\<close>, with the type guards
  \<open>isSerializedSearchComplete\<close>, \<open>isSerializedSearchSuccess\<close> and \<open>isSerializedFileMatch\<close>,
  all of the missing module \<open>services/search/node/search\<close>. The spec's completion
  classifier puts an event, "based on structural shape", in exactly one of four classes:
  terminal success (with statistics), terminal failure (with error detail), match batch
  (a single serialized match or an array of them), informational message. The classes
  are the constructors below; a guard of the source is a test for a constructor, and
  \<open>Array.isArray\<close> is the test for \<open>FileMatchArray\<close>. A progress item may lack its
  message.
\<close>

datatype serialized_event =
    SearchSuccess search_complete_stats
  | SearchError string
  | FileMatch serialized_file_match
  | FileMatchArray "serialized_file_match list"
  | Progress "string option"

record search_service =
  fileSearch :: "raw_search \<Rightarrow> serialized_event list"
  caches :: "string set"

record file_index_search_manager =
  index_caches :: "string set"

datatype text_search_progress = TextSearchProgress uri string

datatype call =
    RegisterTextSearchProvider nat string
  | RegisterFileSearchProvider nat string
  | RegisterFileIndexProvider nat string
  | UnregisterProvider nat
  | HandleFileMatch nat nat "uri list"
  | HandleTextMatch nat nat text_search_progress
  | LogDebug string string
  | ClearCacheInternal string
  | ClearCacheFileIndex string

subsection \<open>The state of the dispatcher and the registry\<close>

record ext_host_search =
  textSearchProvider :: "nat \<rightharpoonup> text_search_provider"
  fileSearchProvider :: "nat \<rightharpoonup> file_search_provider"
  fileIndexProvider :: "nat \<rightharpoonup> file_index_provider"
  handlePool :: nat
  internalFileSearchHandle :: "nat option"
  internalFileSearchProvider :: "search_service option"
  fileIndexSearchManager :: file_index_search_manager
  schemeTransformer :: "(string \<Rightarrow> string) option"
  calls :: "call list"

text \<open>
  \<^verbatim>\<open>
  private _transformScheme(scheme) {
      if (this._schemeTransformer) { return this._schemeTransformer.transformOutgoing(scheme); }
      return scheme;
  }
  \<close>
\<close>

definition transformScheme :: "ext_host_search \<Rightarrow> string \<Rightarrow> string" where
  "transformScheme this sch =
     (case schemeTransformer this of
        Some transformOutgoing \<Rightarrow> transformOutgoing sch
      | None \<Rightarrow> sch)"

text \<open>
  The closures handed to \<open>toDisposable\<close>, one constructor for each \<open>register...\<close>
  method, with the handle the closure captured.
\<close>

datatype disposable =
    TextSearchDisposable nat
  | FileSearchDisposable nat
  | InternalFileSearchDisposable nat
  | FileIndexDisposable nat

fun handle_of :: "disposable \<Rightarrow> nat" where
  "handle_of (TextSearchDisposable h) = h"
| "handle_of (FileSearchDisposable h) = h"
| "handle_of (InternalFileSearchDisposable h) = h"
| "handle_of (FileIndexDisposable h) = h"

text \<open>
  \<^verbatim>\<open>
  registerTextSearchProvider(scheme, provider) {
      const handle = this._handlePool++;
      this._textSearchProvider.set(handle, provider);
      this._proxy.$registerTextSearchProvider(handle, this._transformScheme(scheme));
      return toDisposable(() => { ... });
  }
  \<close>
  The other three methods have the same shape. \<open>registerInternalFileSearchProvider\<close>
  assigns the two internal fields instead of a map, and announces the handle with
  \<open>$registerFileSearchProvider\<close>.
\<close>

definition registerTextSearchProvider ::
  "string \<Rightarrow> text_search_provider \<Rightarrow> ext_host_search \<Rightarrow> disposable \<times> ext_host_search" where
  "registerTextSearchProvider sch provider this =
     (let handle = handlePool this in
      (TextSearchDisposable handle,
       this\<lparr>handlePool := handle + 1,
            textSearchProvider := (textSearchProvider this)(handle \<mapsto> provider),
            calls := calls this @ [RegisterTextSearchProvider handle (transformScheme this sch)]\<rparr>))"

definition registerFileSearchProvider ::
  "string \<Rightarrow> file_search_provider \<Rightarrow> ext_host_search \<Rightarrow> disposable \<times> ext_host_search" where
  "registerFileSearchProvider sch provider this =
     (let handle = handlePool this in
      (FileSearchDisposable handle,
       this\<lparr>handlePool := handle + 1,
            fileSearchProvider := (fileSearchProvider this)(handle \<mapsto> provider),
            calls := calls this @ [RegisterFileSearchProvider handle (transformScheme this sch)]\<rparr>))"

definition registerInternalFileSearchProvider ::
  "string \<Rightarrow> search_service \<Rightarrow> ext_host_search \<Rightarrow> disposable \<times> ext_host_search" where
  "registerInternalFileSearchProvider sch provider this =
     (let handle = handlePool this in
      (InternalFileSearchDisposable handle,
       this\<lparr>handlePool := handle + 1,
            internalFileSearchProvider := Some provider,
            internalFileSearchHandle := Some handle,
            calls := calls this @ [RegisterFileSearchProvider handle (transformScheme this sch)]\<rparr>))"

definition registerFileIndexProvider ::
  "string \<Rightarrow> file_index_provider \<Rightarrow> ext_host_search \<Rightarrow> disposable \<times> ext_host_search" where
  "registerFileIndexProvider sch provider this =
     (let handle = handlePool this in
      (FileIndexDisposable handle,
       this\<lparr>handlePool := handle + 1,
            fileIndexProvider := (fileIndexProvider this)(handle \<mapsto> provider),
            calls := calls this @ [RegisterFileIndexProvider handle (transformScheme this sch)]\<rparr>))"

text \<open>
  The bodies of the four closures, in the order of the source:
  \<^verbatim>\<open>
  () => { this._textSearchProvider.delete(handle); this._proxy.$unregisterProvider(handle); }
  () => { this._fileSearchProvider.delete(handle); this._proxy.$unregisterProvider(handle); }
  () => { this._internalFileSearchProvider = null; this._proxy.$unregisterProvider(handle); }
  () => { this._fileSearchProvider.delete(handle); this._proxy.$unregisterProvider(handle); }
  \<close>
  The last one, of \<open>registerFileIndexProvider\<close>, deletes from \<open>_fileSearchProvider\<close>.
  \<open>toDisposable\<close> runs the closure at every \<open>dispose()\<close>.
\<close>

fun dispose :: "disposable \<Rightarrow> ext_host_search \<Rightarrow> ext_host_search" where
  "dispose (TextSearchDisposable handle) this =
     this\<lparr>textSearchProvider := (textSearchProvider this)(handle := None),
          calls := calls this @ [UnregisterProvider handle]\<rparr>"
| "dispose (FileSearchDisposable handle) this =
     this\<lparr>fileSearchProvider := (fileSearchProvider this)(handle := None),
          calls := calls this @ [UnregisterProvider handle]\<rparr>"
| "dispose (InternalFileSearchDisposable handle) this =
     this\<lparr>internalFileSearchProvider := None,
          calls := calls this @ [UnregisterProvider handle]\<rparr>"
| "dispose (FileIndexDisposable handle) this =
     this\<lparr>fileSearchProvider := (fileSearchProvider this)(handle := None),
          calls := calls this @ [UnregisterProvider handle]\<rparr>"

text \<open>
  \<^verbatim>\<open>
  constructor(mainContext, _schemeTransformer, _logService, configService, _extfs = extfs) {
      this._proxy = mainContext.getProxy(MainContext.MainThreadSearch);
      this._fileSearchManager = new FileSearchManager();
      this._fileIndexSearchManager = new FileIndexSearchManager();
      registerEHProviders(this, _logService, configService);
  }
  function registerEHProviders(extHostSearch, logService, configService) {
      if (configService.getConfiguration('searchRipgrep').enable
              || configService.getConfiguration('search').runInExtensionHost) {
          extHostSearch.registerTextSearchProvider('file', new RipgrepSearchProvider(outputChannel));
          extHostSearch.registerInternalFileSearchProvider('file', new SearchService());
      }
  }
  \<close>
  The value of the configuration test and the two objects made by \<open>new\<close> are arguments.
\<close>

definition registerEHProviders ::
  "bool \<Rightarrow> text_search_provider \<Rightarrow> search_service \<Rightarrow> ext_host_search \<Rightarrow> ext_host_search" where
  "registerEHProviders enabled ripgrep service extHostSearch =
     (if enabled then
        snd (registerInternalFileSearchProvider ''file'' service
          (snd (registerTextSearchProvider ''file'' ripgrep extHostSearch)))
      else extHostSearch)"

definition ExtHostSearch_new ::
  "(string \<Rightarrow> string) option \<Rightarrow> bool \<Rightarrow> text_search_provider \<Rightarrow> search_service
     \<Rightarrow> ext_host_search" where
  "ExtHostSearch_new transformer enabled ripgrep service =
     registerEHProviders enabled ripgrep service
       \<lparr>textSearchProvider = Map.empty, fileSearchProvider = Map.empty,
        fileIndexProvider = Map.empty, handlePool = 0,
        internalFileSearchHandle = None, internalFileSearchProvider = None,
        fileIndexSearchManager = \<lparr>index_caches = {}\<rparr>,
        schemeTransformer = transformer, calls = []\<rparr>"

text \<open>
  A run of register and dispose operations on the dispatcher. \<open>run\<close> returns the
  handles that the registrations allocated, in order, and the final state.
\<close>

datatype operation =
    RegisterText string text_search_provider
  | RegisterFile string file_search_provider
  | RegisterInternal string search_service
  | RegisterIndex string file_index_provider
  | Dispose disposable

fun step :: "operation \<Rightarrow> ext_host_search \<Rightarrow> disposable option \<times> ext_host_search" where
  "step (RegisterText sch p) this = map_prod Some id (registerTextSearchProvider sch p this)"
| "step (RegisterFile sch p) this = map_prod Some id (registerFileSearchProvider sch p this)"
| "step (RegisterInternal sch p) this =
     map_prod Some id (registerInternalFileSearchProvider sch p this)"
| "step (RegisterIndex sch p) this = map_prod Some id (registerFileIndexProvider sch p this)"
| "step (Dispose d) this = (None, dispose d this)"

fun run :: "operation list \<Rightarrow> ext_host_search \<Rightarrow> nat list \<times> ext_host_search" where
  "run [] this = ([], this)"
| "run (op # ops) this =
     (case step op this of
        (None, this') \<Rightarrow> run ops this'
      | (Some d, this') \<Rightarrow> (case run ops this' of (hs, this'') \<Rightarrow> (handle_of d # hs, this'')))"

subsection \<open>Requests\<close>

text \<open>
  A request returns a promise and, while it runs, calls \<open>_proxy\<close> and \<open>_logService\<close>.
  Its model is the promise's state together with the calls made, oldest first.
  A promise settles once: \<open>resolve\<close> and \<open>reject\<close> on a settled promise do nothing.
  \<open>TypeError\<close> is the error of reading a property of \<open>undefined\<close> or \<open>null\<close>; thrown
  inside the executor of \<open>new Promise\<close> it rejects the promise, thrown elsewhere it leaves
  the method. \<open>ProviderNotFound\<close> is the classification that the spec's error taxonomy
  names; no line of extHostSearch.ts builds it.
\<close>

datatype js_error = TypeError

datatype rejection =
    SearchErrorEvent string
  | Uncaught js_error
  | ProviderNotFound
  | ProviderFailure string

datatype 'a promise = Pending | Resolved 'a | Rejected rejection

record 'a request =
  promise :: "'a promise"
  sent :: "call list"

definition resolve :: "'a \<Rightarrow> 'a request \<Rightarrow> 'a request" where
  "resolve v r = (case promise r of Pending \<Rightarrow> r\<lparr>promise := Resolved v\<rparr> | _ \<Rightarrow> r)"

definition reject :: "rejection \<Rightarrow> 'a request \<Rightarrow> 'a request" where
  "reject e r = (case promise r of Pending \<Rightarrow> r\<lparr>promise := Rejected e\<rparr> | _ \<Rightarrow> r)"

definition send :: "call \<Rightarrow> 'a request \<Rightarrow> 'a request" where
  "send c r = r\<lparr>sent := sent r @ [c]\<rparr>"

text \<open>
  The collaborators that extHostSearch.ts calls and whose code is in other modules are
  arguments of the model: \<open>URI.file\<close> and the getter \<open>fsPath\<close> of a \<open>URI\<close>, and the three
  search engines. An engine is given by what it does for a query and a provider: the
  batches (or progress items) it hands to its callback, in order, and the state of the
  promise it returns. The index engine receives whatever \<open>_fileIndexProvider.get(handle)\<close>
  returned, \<open>undefined\<close> included.
\<close>

datatype file_match = IFileMatch (resource: uri)

record manager_run =
  batches :: "file_match list list"
  outcome :: "search_complete_stats promise"

record text_run =
  progress :: "text_search_progress list"
  text_outcome :: "search_complete_stats promise"

record collaborators =
  URI_file :: "string \<Rightarrow> uri"
  fsPath :: "uri \<Rightarrow> string"
  fileSearchManager_fileSearch :: "uri search_query \<Rightarrow> file_search_provider \<Rightarrow> manager_run"
  fileIndexSearchManager_fileSearch ::
    "uri search_query \<Rightarrow> file_index_provider option \<Rightarrow> manager_run"
  textSearchManager_search ::
    "pattern_info \<Rightarrow> uri search_query \<Rightarrow> text_search_provider \<Rightarrow> text_run"

text \<open>
  The listener that \<open>doInternalFileSearch\<close> attaches to the event stream:
  \<^verbatim>\<open>
  ev => {
      if (isSerializedSearchComplete(ev)) {
          if (isSerializedSearchSuccess(ev)) { resolve(ev); return; }
          else { reject(ev); return; }
      } else {
          if (isSerializedFileMatch(ev)) { ev = [ev]; }
          if (Array.isArray(ev)) {
              this._proxy.$handleFileMatch(handle, session, ev.map(m => URI.file(m.path)));
              return;
          }
          if (ev.message) { this._logService.debug('ExtHostSearch', ev.message); }
      }
  }
  \<close>
  The listener holds no flag and is never detached: it handles every event the same
  way, whatever came before. An empty message is falsy.
\<close>

fun listener ::
  "collaborators \<Rightarrow> nat \<Rightarrow> nat \<Rightarrow> serialized_event
     \<Rightarrow> search_complete_stats request \<Rightarrow> search_complete_stats request" where
  "listener E handle session (SearchSuccess ev) r = resolve ev r"
| "listener E handle session (SearchError ev) r = reject (SearchErrorEvent ev) r"
| "listener E handle session (FileMatch ev) r =
     send (HandleFileMatch handle session (map (\<lambda>m. URI_file E (path m)) [ev])) r"
| "listener E handle session (FileMatchArray ev) r =
     send (HandleFileMatch handle session (map (\<lambda>m. URI_file E (path m)) ev)) r"
| "listener E handle session (Progress message) r =
     (case message of
        None \<Rightarrow> r
      | Some m \<Rightarrow> if m = [] then r else send (LogDebug ''ExtHostSearch'' m) r)"

fun fire ::
  "collaborators \<Rightarrow> nat \<Rightarrow> nat \<Rightarrow> serialized_event list
     \<Rightarrow> search_complete_stats request \<Rightarrow> search_complete_stats request" where
  "fire E handle session [] r = r"
| "fire E handle session (ev # evs) r =
     fire E handle session evs (listener E handle session ev r)"

text \<open>
  \<open>doInternalFileSearch\<close>: the executor builds the provider-native query (the folder
  roots flattened to \<open>fsPath\<close> strings), asks the internal provider for its event stream
  and attaches the listener. \<open>rawQuery.folderQueries.map\<close> on a missing list and
  \<open>this._internalFileSearchProvider.fileSearch\<close> on a null provider throw inside the
  executor.
\<close>

definition folderSearch :: "collaborators \<Rightarrow> uri folder_query \<Rightarrow> folder_search" where
  "folderSearch E fq =
     \<lparr>fs_disregardGlobalIgnoreFiles = fq_disregardGlobalIgnoreFiles fq,
      fs_disregardIgnoreFiles = fq_disregardIgnoreFiles fq,
      fs_excludePattern = fq_excludePattern fq,
      fs_fileEncoding = fq_fileEncoding fq,
      fs_folder = fsPath E (folder fq),
      fs_includePattern = fq_includePattern fq\<rparr>"

definition rawSearch :: "collaborators \<Rightarrow> uri search_query \<Rightarrow> uri folder_query list \<Rightarrow> raw_search" where
  "rawSearch E rawQuery fqs =
     \<lparr>raw_folderQueries = map (folderSearch E) fqs,
      raw_ignoreSymlinks = ignoreSymlinks rawQuery,
      raw_filePattern = filePattern rawQuery,
      raw_excludePattern = excludePattern rawQuery,
      raw_includePattern = includePattern rawQuery,
      raw_contentPattern = contentPattern rawQuery,
      raw_maxResults = maxResults rawQuery,
      raw_exists = exists rawQuery,
      raw_sortByScore = sortByScore rawQuery,
      raw_cacheKey = cacheKey rawQuery,
      raw_maxFilesize = maxFileSize rawQuery,
      raw_useRipgrep = useRipgrep rawQuery,
      raw_disregardIgnoreFiles = disregardIgnoreFiles rawQuery,
      raw_previewOptions = previewOptions rawQuery,
      raw_disregardGlobalIgnoreFiles = disregardGlobalIgnoreFiles rawQuery\<rparr>"

definition doInternalFileSearch ::
  "collaborators \<Rightarrow> ext_host_search \<Rightarrow> nat \<Rightarrow> nat \<Rightarrow> uri search_query
     \<Rightarrow> search_complete_stats request" where
  "doInternalFileSearch E this handle session rawQuery =
     (case folderQueries rawQuery of
        None \<Rightarrow> \<lparr>promise = Rejected (Uncaught TypeError), sent = []\<rparr>
      | Some fqs \<Rightarrow>
          (case internalFileSearchProvider this of
             None \<Rightarrow> \<lparr>promise = Rejected (Uncaught TypeError), sent = []\<rparr>
           | Some provider \<Rightarrow>
               fire E handle session (fileSearch provider (rawSearch E rawQuery fqs))
                 \<lparr>promise = Pending, sent = []\<rparr>))"

text \<open>
  \<^verbatim>\<open>
  $provideFileSearchResults(handle, session, rawQuery, token) {
      const query = reviveQuery(rawQuery);
      if (handle === this._internalFileSearchHandle) {
          return this.doInternalFileSearch(handle, session, query, token);
      } else {
          const provider = this._fileSearchProvider.get(handle);
          if (provider) {
              return this._fileSearchManager.fileSearch(query, provider, batch => {
                  this._proxy.$handleFileMatch(handle, session, batch.map(p => p.resource));
              }, token);
          } else {
              const indexProvider = this._fileIndexProvider.get(handle);
              return this._fileIndexSearchManager.fileSearch(query, indexProvider, batch => {
                  this._proxy.$handleFileMatch(handle, session, batch.map(p => p.resource));
              }, token);
          }
      }
  }
  \<close>
\<close>

definition relay :: "nat \<Rightarrow> nat \<Rightarrow> manager_run \<Rightarrow> search_complete_stats request" where
  "relay handle session mr =
     \<lparr>promise = outcome mr,
      sent = map (\<lambda>batch. HandleFileMatch handle session (map (\<lambda>p. resource p) batch))
               (batches mr)\<rparr>"

definition provideFileSearchResults ::
  "collaborators \<Rightarrow> ext_host_search \<Rightarrow> nat \<Rightarrow> nat \<Rightarrow> uri_components search_query
     \<Rightarrow> search_complete_stats request" where
  "provideFileSearchResults E this handle session rawQuery =
     (let query = reviveQuery rawQuery in
      if Some handle = internalFileSearchHandle this then
        doInternalFileSearch E this handle session query
      else
        (case fileSearchProvider this handle of
           Some provider \<Rightarrow> relay handle session (fileSearchManager_fileSearch E query provider)
         | None \<Rightarrow>
             (let indexProvider = fileIndexProvider this handle in
              relay handle session (fileIndexSearchManager_fileSearch E query indexProvider))))"

text \<open>
  \<^verbatim>\<open>
  $provideTextSearchResults(handle, session, pattern, rawQuery, token) {
      const provider = this._textSearchProvider.get(handle);
      if (!provider.provideTextSearchResults) { return TPromise.as(undefined); }
      const query = reviveQuery(rawQuery);
      const engine = new TextSearchManager(pattern, query, provider, this._extfs);
      return engine.search(progress => this._proxy.$handleTextMatch(handle, session, progress), token);
  }
  \<close>
  The method returns a promise (\<open>Inr\<close>) or throws (\<open>Inl\<close>): \<open>provider\<close> is \<open>undefined\<close>
  when the map has no entry for the handle, and the test reads a property of it.
  \<open>TPromise.as(undefined)\<close> is a promise resolved with \<open>undefined\<close>.
\<close>

fun map_promise :: "('a \<Rightarrow> 'b) \<Rightarrow> 'a promise \<Rightarrow> 'b promise" where
  "map_promise f Pending = Pending"
| "map_promise f (Resolved v) = Resolved (f v)"
| "map_promise f (Rejected e) = Rejected e"

definition provideTextSearchResults_request ::
  "collaborators \<Rightarrow> ext_host_search \<Rightarrow> nat \<Rightarrow> nat \<Rightarrow> pattern_info
     \<Rightarrow> uri_components search_query \<Rightarrow> js_error + search_complete_stats option request" where
  "provideTextSearchResults_request E this handle session pattern rawQuery =
     (case textSearchProvider this handle of
        None \<Rightarrow> Inl TypeError
      | Some provider \<Rightarrow>
          (case provideTextSearchResults provider of
             None \<Rightarrow> Inr \<lparr>promise = Resolved None, sent = []\<rparr>
           | Some _ \<Rightarrow>
               (let query = reviveQuery rawQuery;
                    engine = textSearchManager_search E pattern query provider
                in Inr \<lparr>promise = map_promise Some (text_outcome engine),
                        sent = map (\<lambda>progress. HandleTextMatch handle session progress)
                                 (progress engine)\<rparr>)))"

text \<open>
  Modelled from the spec: \<open>SearchService.clearCache\<close> of the missing module
  \<open>rawSearchService\<close>. The spec: the relay "must not fail if no cache entry exists for
  the key (no-op)". Clearing removes the key from the keys held.
\<close>

definition SearchService_clearCache :: "string \<Rightarrow> search_service \<Rightarrow> search_service" where
  "SearchService_clearCache key service = service\<lparr>caches := caches service - {key}\<rparr>"

text \<open>
  Modelled from the spec: \<open>FileIndexSearchManager.clearCache\<close> of the missing module
  \<open>extHostSearch.fileIndex\<close>: it removes the key from the keys held, "a no-op" when
  there is no entry, and returns a resolved promise.
\<close>

definition FileIndexSearchManager_clearCache ::
  "string \<Rightarrow> file_index_search_manager \<Rightarrow> unit promise \<times> file_index_search_manager" where
  "FileIndexSearchManager_clearCache key manager =
     (Resolved (), manager\<lparr>index_caches := index_caches manager - {key}\<rparr>)"

text \<open>
  \<^verbatim>\<open>
  $clearCache(key) {
      if (this._internalFileSearchProvider) {
          this._internalFileSearchProvider.clearCache(key);
      }
      return this._fileIndexSearchManager.clearCache(key);
  }
  \<close>
\<close>

definition clearCache :: "string \<Rightarrow> ext_host_search \<Rightarrow> unit promise \<times> ext_host_search" where
  "clearCache key this =
     (let this1 =
        (case internalFileSearchProvider this of
           Some provider \<Rightarrow>
             this\<lparr>internalFileSearchProvider := Some (SearchService_clearCache key provider),
                  calls := calls this @ [ClearCacheInternal key]\<rparr>
         | None \<Rightarrow> this);
          (result, manager) =
            FileIndexSearchManager_clearCache key (fileIndexSearchManager this1)
      in (result,
          this1\<lparr>fileIndexSearchManager := manager,
                 calls := calls this1 @ [ClearCacheFileIndex key]\<rparr>))"

subsection \<open>Reading an event stream\<close>

text \<open>
  Three functions for stating what a request does with a stream. \<open>batch_of\<close> is the
  batch an event carries, if it is a match event. \<open>settlement\<close> is the state in which
  the first terminal event of a stream leaves a pending promise: the outcome of that
  event, or \<open>Pending\<close> when the stream has no terminal event. \<open>forwarded\<close> is the list
  of calls one event causes.
\<close>

fun batch_of :: "serialized_event \<Rightarrow> serialized_file_match list option" where
  "batch_of (FileMatch m) = Some [m]"
| "batch_of (FileMatchArray ms) = Some ms"
| "batch_of _ = None"

fun settlement :: "serialized_event list \<Rightarrow> search_complete_stats promise" where
  "settlement [] = Pending"
| "settlement (SearchSuccess st # evs) = Resolved st"
| "settlement (SearchError e # evs) = Rejected (SearchErrorEvent e)"
| "settlement (_ # evs) = settlement evs"

fun forwarded :: "collaborators \<Rightarrow> nat \<Rightarrow> nat \<Rightarrow> serialized_event \<Rightarrow> call list" where
  "forwarded E handle session (FileMatch m) =
     [HandleFileMatch handle session [URI_file E (path m)]]"
| "forwarded E handle session (FileMatchArray ms) =
     [HandleFileMatch handle session (map (\<lambda>m. URI_file E (path m)) ms)]"
| "forwarded E handle session (Progress (Some m)) =
     (if m = [] then [] else [LogDebug ''ExtHostSearch'' m])"
| "forwarded E handle session _ = []"

text \<open>
  Modelled from the spec: \<open>FileIndexSearchManager.fileSearch\<close> of the missing module
  \<open>extHostSearch.fileIndex\<close>, for the provider it is handed. The spec: "a handle must
  resolve to exactly one of these three, or the request fails with provider not found",
  and provider-not-found is "surfaced as a rejection distinct from a search failure".
  The dispatcher hands this engine every handle that is neither the internal one nor in
  the file-search map, so the engine is where a request without a provider can fail:
  with no provider it calls back with no batch and rejects with the provider-not-found
  classification. With a provider it runs the index search, \<open>index_search\<close>, of which
  the spec fixes nothing that this file depends on.
\<close>

definition FileIndexSearchManager_fileSearch ::
  "(uri search_query \<Rightarrow> file_index_provider \<Rightarrow> manager_run)
     \<Rightarrow> uri search_query \<Rightarrow> file_index_provider option \<Rightarrow> manager_run" where
  "FileIndexSearchManager_fileSearch index_search query indexProvider =
     (case indexProvider of
        None \<Rightarrow> \<lparr>batches = [], outcome = Rejected ProviderNotFound\<rparr>
      | Some provider \<Rightarrow> index_search query provider)"

text \<open>Concrete collaborators and objects, for evaluating the model on examples.\<close>

definition example_collaborators :: collaborators where
  "example_collaborators =
     \<lparr>URI_file = (\<lambda>p. URI ''file'' [] p [] []),
      fsPath = uri_path,
      fileSearchManager_fileSearch = (\<lambda>q p. \<lparr>batches = [], outcome = Pending\<rparr>),
      fileIndexSearchManager_fileSearch =
        FileIndexSearchManager_fileSearch (\<lambda>q p. \<lparr>batches = [], outcome = Pending\<rparr>),
      textSearchManager_search = (\<lambda>pat q p. \<lparr>progress = [], text_outcome = Pending\<rparr>)\<rparr>"

definition example_query :: "uri_components search_query" where
  "example_query =
     \<lparr>folderQueries =
        Some [\<lparr>folder = \<lparr>c_scheme = ''file'', c_authority = [], c_path = ''/w'',
                          c_query = [], c_fragment = []\<rparr>,
               fq_excludePattern = None, fq_includePattern = None, fq_fileEncoding = None,
               fq_disregardIgnoreFiles = None, fq_disregardGlobalIgnoreFiles = None\<rparr>],
      extraFileResources = None, ignoreSymlinks = None, filePattern = Some ''a'',
      excludePattern = None, includePattern = None, contentPattern = None,
      maxResults = None, exists = None, sortByScore = None, cacheKey = Some ''k'',
      maxFileSize = None, useRipgrep = None, disregardIgnoreFiles = None,
      previewOptions = None, disregardGlobalIgnoreFiles = None\<rparr>"

definition example_stats :: search_complete_stats where
  "example_stats = \<lparr>limitHit = False, resultCount = 2\<rparr>"

definition example_service :: "serialized_event list \<Rightarrow> search_service" where
  "example_service evs = \<lparr>fileSearch = (\<lambda>q. evs), caches = {''k''}\<rparr>"

definition example_text_provider :: "text_search_impl option \<Rightarrow> text_search_provider" where
  "example_text_provider impl = \<lparr>text_provider_id = 0, provideTextSearchResults = impl\<rparr>"

definition blank :: ext_host_search where
  "blank = ExtHostSearch_new None False (example_text_provider None) (example_service [])"

definition example_host :: "serialized_event list \<Rightarrow> ext_host_search" where
  "example_host evs =
     ExtHostSearch_new None True (example_text_provider None) (example_service evs)"

definition example_folder :: "uri_components folder_query" where
  "example_folder =
     \<lparr>folder = \<lparr>c_scheme = ''file'', c_authority = [], c_path = ''/w'',
                 c_query = [], c_fragment = []\<rparr>,
      fq_excludePattern = None, fq_includePattern = None, fq_fileEncoding = None,
      fq_disregardIgnoreFiles = None, fq_disregardGlobalIgnoreFiles = None\<rparr>"

text \<open>
  A fresh dispatcher on which an internal provider is registered twice (handles 0 and
  1) and the disposable of the first registration is then disposed.
\<close>

definition example_stale_host :: ext_host_search where
  "example_stale_host =
     dispose (InternalFileSearchDisposable 0)
       (snd (registerInternalFileSearchProvider ''file'' (example_service [])
          (snd (registerInternalFileSearchProvider ''file'' (example_service []) blank))))"

section \<open>Properties\<close>

lemmas register_defs =
  registerTextSearchProvider_def registerFileSearchProvider_def
  registerInternalFileSearchProvider_def registerFileIndexProvider_def

lemmas example_defs =
  example_host_def blank_def ExtHostSearch_new_def registerEHProviders_def
  example_service_def example_query_def example_collaborators_def example_stats_def
  example_text_provider_def example_folder_def

subsection \<open>Handles\<close>

lemma step_register:
  "step op this = (Some d, this') \<Longrightarrow>
     handle_of d = handlePool this \<and> handlePool this' = Suc (handlePool this)"
  by (cases op) (auto simp: register_defs Let_def)

lemma step_dispose:
  "step op this = (None, this') \<Longrightarrow> handlePool this' = handlePool this"
proof (cases op)
  case (Dispose d)
  then show "step op this = (None, this') \<Longrightarrow> handlePool this' = handlePool this"
    by (cases d) auto
qed (auto simp: register_defs Let_def)

text \<open>The handles of a run are consecutive, starting at the counter.\<close>

lemma run_handles:
  "run ops this = (hs, this') \<Longrightarrow>
     hs = [handlePool this ..< handlePool this + length hs] \<and>
     handlePool this' = handlePool this + length hs"
proof (induction ops arbitrary: this hs this')
  case Nil
  then show ?case by simp
next
  case (Cons op ops)
  obtain od this1 where st: "step op this = (od, this1)" by (cases "step op this")
  show ?case
  proof (cases od)
    case None
    with st Cons.prems have "run ops this1 = (hs, this')" by simp
    from Cons.IH [OF this] step_dispose [of op this this1] st None
    show ?thesis by simp
  next
    case (Some d)
    obtain hs1 this2 where r: "run ops this1 = (hs1, this2)" by (cases "run ops this1")
    with st Some Cons.prems have hs: "hs = handle_of d # hs1" and t: "this' = this2" by auto
    from step_register [of op this d this1] st Some
    have h: "handle_of d = handlePool this" and p: "handlePool this1 = Suc (handlePool this)"
      by auto
    from Cons.IH [OF r] p have
      hs1: "hs1 = [Suc (handlePool this) ..< Suc (handlePool this) + length hs1]"
      and p2: "handlePool this2 = Suc (handlePool this) + length hs1" by auto
    have e: "[handlePool this ..< handlePool this + Suc (length hs1)] =
        handlePool this # [Suc (handlePool this) ..< Suc (handlePool this) + length hs1]"
      by (simp add: upt_conv_Cons del: upt_Suc)
    have len: "length hs = Suc (length hs1)" using hs by simp
    have "hs = [handlePool this ..< handlePool this + length hs]"
      unfolding len e using hs h hs1 by simp
    moreover have "handlePool this' = handlePool this + length hs"
      using t p2 len by simp
    ultimately show ?thesis by simp
  qed
qed

lemma run_handlePool_mono: "handlePool this \<le> handlePool (snd (run ops this))"
  using run_handles [of ops this "fst (run ops this)" "snd (run ops this)"] by simp

text \<open>
  C6. In every run of registrations of the four kinds and of disposals, in any order
  and from any state, the handles allocated are strictly increasing in the order of the
  registrations, so no handle is allocated twice, whatever was disposed in between;
  each is at least the counter at the start and below the counter at the end.
\<close>

theorem handles_strictly_increasing:
  "sorted_wrt (<) (fst (run ops this)) \<and> distinct (fst (run ops this)) \<and>
   (\<forall>h \<in> set (fst (run ops this)).
      handlePool this \<le> h \<and> h < handlePool (snd (run ops this)))"
proof -
  define hs where "hs = fst (run ops this)"
  define this' where "this' = snd (run ops this)"
  have "run ops this = (hs, this')" by (simp add: hs_def this'_def)
  from run_handles [OF this] have
    hs: "hs = [handlePool this ..< handlePool this + length hs]"
    and p: "handlePool this' = handlePool this + length hs" by auto
  have "sorted_wrt (<) [handlePool this ..< handlePool this + length hs]"
    by (rule sorted_wrt_upt)
  moreover have "distinct [handlePool this ..< handlePool this + length hs]" by simp
  moreover have "\<forall>h \<in> set [handlePool this ..< handlePool this + length hs].
     handlePool this \<le> h \<and> h < handlePool this'" using p by simp
  ultimately have "sorted_wrt (<) hs \<and> distinct hs \<and>
     (\<forall>h \<in> set hs. handlePool this \<le> h \<and> h < handlePool this')"
    using hs by metis
  then show ?thesis by (simp add: hs_def this'_def)
qed

text \<open>
  Six operations on a dispatcher built with the search in the extension host switched
  off: four registrations, one of each kind, with two disposals in between.
\<close>

theorem handles_strictly_increasing_witness:
  "fst (run [RegisterText ''file'' (example_text_provider None),
             RegisterIndex ''x'' (FileIndexProvider 1),
             Dispose (FileIndexDisposable 1),
             RegisterInternal ''file'' (example_service []),
             Dispose (TextSearchDisposable 0),
             RegisterFile ''y'' (FileSearchProvider 2)] blank) = [0, 1, 2, 3] \<and>
   sorted_wrt (<) [0, 1, 2, 3 :: nat] \<and> distinct [0, 1, 2, 3 :: nat] \<and>
   handlePool blank = 0 \<and>
   handlePool (snd (run [RegisterText ''file'' (example_text_provider None),
             RegisterIndex ''x'' (FileIndexProvider 1),
             Dispose (FileIndexDisposable 1),
             RegisterInternal ''file'' (example_service []),
             Dispose (TextSearchDisposable 0),
             RegisterFile ''y'' (FileSearchProvider 2)] blank)) = 4"
  using handles_strictly_increasing
    [of "[RegisterText ''file'' (example_text_provider None),
          RegisterIndex ''x'' (FileIndexProvider 1),
          Dispose (FileIndexDisposable 1),
          RegisterInternal ''file'' (example_service []),
          Dispose (TextSearchDisposable 0),
          RegisterFile ''y'' (FileSearchProvider 2)]" blank]
  by (simp add: example_defs register_defs Let_def)

subsection \<open>Disposal\<close>

text \<open>
  C5. Resolving a handle after its disposer has run should return absent. For a
  file-index registration it does not: the disposer that \<open>registerFileIndexProvider\<close>
  returns deletes the handle from \<open>_fileSearchProvider\<close>, so in every state the handle
  still resolves to the provider in \<open>_fileIndexProvider\<close> after the disposal; on a fresh
  dispatcher a file search for the disposed handle 0 is still handed to the index
  engine with that provider.
\<close>

theorem fileIndex_dispose_keeps_provider:
  "fileIndexProvider
     (dispose (fst (registerFileIndexProvider sch provider this))
        (snd (registerFileIndexProvider sch provider this)))
     (handle_of (fst (registerFileIndexProvider sch provider this))) = Some provider \<and>
   provideFileSearchResults E
     (dispose (fst (registerFileIndexProvider sch provider blank))
        (snd (registerFileIndexProvider sch provider blank)))
     0 session rawQuery =
     relay 0 session (fileIndexSearchManager_fileSearch E (reviveQuery rawQuery) (Some provider))"
  by (simp add: registerFileIndexProvider_def Let_def provideFileSearchResults_def
        blank_def ExtHostSearch_new_def registerEHProviders_def)

text \<open>
  The disposers of the text and of the file-search registrations delete from their own
  maps.
\<close>

lemma text_dispose_removes:
  "textSearchProvider
     (dispose (fst (registerTextSearchProvider sch provider this))
        (snd (registerTextSearchProvider sch provider this)))
     (handle_of (fst (registerTextSearchProvider sch provider this))) = None"
  by (simp add: registerTextSearchProvider_def Let_def)

lemma file_dispose_removes:
  "fileSearchProvider
     (dispose (fst (registerFileSearchProvider sch provider this))
        (snd (registerFileSearchProvider sch provider this)))
     (handle_of (fst (registerFileSearchProvider sch provider this))) = None"
  by (simp add: registerFileSearchProvider_def Let_def)

lemma doInternalFileSearch_null:
  "internalFileSearchProvider this = None \<Longrightarrow>
   doInternalFileSearch E this handle session query =
     \<lparr>promise = Rejected (Uncaught TypeError), sent = []\<rparr>"
  by (simp add: doInternalFileSearch_def split: option.splits)

text \<open>
  C10. Let r1 and r2 be two registrations of an internal provider, r1 first, with any
  run of operations between them. Disposing r1 after r2 sets the internal slot to null
  although it holds the provider of r2, and leaves the handle of r2 in the handle
  field. From then on \<open>$clearCache\<close> calls the index manager only, and a file search
  for the handle of r2 goes to \<open>doInternalFileSearch\<close>, which finds a null provider:
  the promise is rejected with the TypeError and nothing is sent.
\<close>

theorem stale_internal_disposer:
  "let (d1, this1) = registerInternalFileSearchProvider sch1 p1 this;
       (hs, this1') = run mid this1;
       (d2, this2) = registerInternalFileSearchProvider sch2 p2 this1';
       this3 = dispose d1 this2
   in internalFileSearchProvider this2 = Some p2 \<and>
      internalFileSearchProvider this3 = None \<and>
      internalFileSearchHandle this3 = Some (handle_of d2) \<and>
      handle_of d1 < handle_of d2 \<and>
      fst (clearCache key this3) = Resolved () \<and>
      calls (snd (clearCache key this3)) = calls this3 @ [ClearCacheFileIndex key] \<and>
      internalFileSearchProvider (snd (clearCache key this3)) = None \<and>
      provideFileSearchResults E this3 (handle_of d2) session rawQuery =
        doInternalFileSearch E this3 (handle_of d2) session (reviveQuery rawQuery) \<and>
      doInternalFileSearch E this3 (handle_of d2) session (reviveQuery rawQuery) =
        \<lparr>promise = Rejected (Uncaught TypeError), sent = []\<rparr>"
proof -
  define this1 where "this1 = snd (registerInternalFileSearchProvider sch1 p1 this)"
  define this1' where "this1' = snd (run mid this1)"
  define hs where "hs = fst (run mid this1)"
  define this2 where "this2 = snd (registerInternalFileSearchProvider sch2 p2 this1')"
  define this3 where "this3 = dispose (InternalFileSearchDisposable (handlePool this)) this2"
  have d1: "registerInternalFileSearchProvider sch1 p1 this =
      (InternalFileSearchDisposable (handlePool this), this1)"
    by (simp add: this1_def registerInternalFileSearchProvider_def Let_def)
  have d2: "registerInternalFileSearchProvider sch2 p2 this1' =
      (InternalFileSearchDisposable (handlePool this1'), this2)"
    by (simp add: this2_def registerInternalFileSearchProvider_def Let_def)
  have mid: "run mid this1 = (hs, this1')"
    by (simp add: this1'_def hs_def)
  have "handlePool this1 = Suc (handlePool this)"
    by (simp add: this1_def registerInternalFileSearchProvider_def Let_def)
  moreover have "handlePool this1 \<le> handlePool this1'"
    unfolding this1'_def by (rule run_handlePool_mono)
  ultimately have lt: "handlePool this < handlePool this1'" by simp
  have p2: "internalFileSearchProvider this2 = Some p2"
    and h2: "internalFileSearchHandle this2 = Some (handlePool this1')"
    by (simp_all add: this2_def registerInternalFileSearchProvider_def Let_def)
  have p3: "internalFileSearchProvider this3 = None"
    and h3: "internalFileSearchHandle this3 = Some (handlePool this1')"
    using h2 by (simp_all add: this3_def)
  have cc: "fst (clearCache key this3) = Resolved () \<and>
      calls (snd (clearCache key this3)) = calls this3 @ [ClearCacheFileIndex key] \<and>
      internalFileSearchProvider (snd (clearCache key this3)) = None"
    using p3 by (simp add: clearCache_def FileIndexSearchManager_clearCache_def)
  have pf: "provideFileSearchResults E this3 (handlePool this1') session rawQuery =
        doInternalFileSearch E this3 (handlePool this1') session (reviveQuery rawQuery)"
    using h3 by (simp add: provideFileSearchResults_def)
  have di: "doInternalFileSearch E this3 (handlePool this1') session (reviveQuery rawQuery) =
        \<lparr>promise = Rejected (Uncaught TypeError), sent = []\<rparr>"
    using p3 by (rule doInternalFileSearch_null)
  show ?thesis
    unfolding d1 mid d2 Let_def prod.case
    using lt p2 p3 h3 cc pf di by (simp add: this3_def)
qed

text \<open>
  On a fresh dispatcher: r1 takes handle 0, a file-search registration takes handle 1,
  r2 takes handle 2, then r1 is disposed.
\<close>

theorem stale_internal_disposer_witness:
  "internalFileSearchHandle
     (dispose (InternalFileSearchDisposable 0)
        (snd (registerInternalFileSearchProvider ''file'' (example_service [])
           (snd (run [RegisterFile ''y'' (FileSearchProvider 2)]
              (snd (registerInternalFileSearchProvider ''file'' (example_service []) blank)))))))
     = Some 2 \<and>
   provideFileSearchResults example_collaborators
     (dispose (InternalFileSearchDisposable 0)
        (snd (registerInternalFileSearchProvider ''file'' (example_service [])
           (snd (run [RegisterFile ''y'' (FileSearchProvider 2)]
              (snd (registerInternalFileSearchProvider ''file'' (example_service []) blank)))))))
     2 7 example_query =
     \<lparr>promise = Rejected (Uncaught TypeError), sent = []\<rparr>"
  using stale_internal_disposer
    [of "''file''" "example_service []" blank "[RegisterFile ''y'' (FileSearchProvider 2)]"
        "''file''" "example_service []" "''k''" example_collaborators 7 example_query]
  by (simp add: example_defs register_defs Let_def transformScheme_def clearCache_def
        FileIndexSearchManager_clearCache_def provideFileSearchResults_def
        doInternalFileSearch_def reviveQuery_def)

subsection \<open>Cache invalidation\<close>

text \<open>
  C8 does not hold as stated. On a fresh dispatcher an internal provider is registered
  twice, under handles 0 and 1, and the first registration is disposed. The second
  registration is then still in force: its handle was announced and never
  unregistered, and it is the value of the handle field. Yet \<open>$clearCache\<close> calls the
  index manager only: the call to the internal provider depends on the slot, which the
  disposer of the first registration emptied.
\<close>

theorem clearCache_registered_counterexample:
  "calls example_stale_host =
     [RegisterFileSearchProvider 0 ''file'', RegisterFileSearchProvider 1 ''file'',
      UnregisterProvider 0] \<and>
   internalFileSearchHandle example_stale_host = Some 1 \<and>
   calls (snd (clearCache ''k'' example_stale_host)) =
     calls example_stale_host @ [ClearCacheFileIndex ''k'']"
  by (simp add: example_stale_host_def example_defs register_defs Let_def
        transformScheme_def clearCache_def FileIndexSearchManager_clearCache_def)

text \<open>
  C8, amended. For every cache key, \<open>$clearCache\<close> calls \<open>clearCache\<close> of the internal
  provider, and calls it first, when and only when the internal slot holds a provider.
  Every internal registration fills the slot and the disposer of any internal
  registration, also of an older one, empties it. \<open>$clearCache\<close> always calls
  \<open>clearCache\<close> of the file-index search manager, last, and returns the promise that
  this call returns, which is resolved. The key is then held by neither cache, and a
  cache that did not hold the key is left as it was.
\<close>

theorem clearCache_forwarding:
  "fst (clearCache key this) =
     fst (FileIndexSearchManager_clearCache key (fileIndexSearchManager this)) \<and>
   fst (clearCache key this) = Resolved () \<and>
   calls (snd (clearCache key this)) =
     calls this @
     (case internalFileSearchProvider this of
        Some provider \<Rightarrow> [ClearCacheInternal key] | None \<Rightarrow> []) @
     [ClearCacheFileIndex key] \<and>
   internalFileSearchProvider (snd (clearCache key this)) =
     map_option (SearchService_clearCache key) (internalFileSearchProvider this) \<and>
   index_caches (fileIndexSearchManager (snd (clearCache key this))) =
     index_caches (fileIndexSearchManager this) - {key} \<and>
   (key \<notin> index_caches (fileIndexSearchManager this) \<longrightarrow>
      fileIndexSearchManager (snd (clearCache key this)) = fileIndexSearchManager this) \<and>
   (\<forall>provider. internalFileSearchProvider this = Some provider \<and> key \<notin> caches provider \<longrightarrow>
      internalFileSearchProvider (snd (clearCache key this)) = Some provider) \<and>
   internalFileSearchProvider (snd (registerInternalFileSearchProvider sch p this)) = Some p \<and>
   internalFileSearchProvider (dispose (InternalFileSearchDisposable h) this) = None"
  by (cases "internalFileSearchProvider this")
     (auto simp: clearCache_def SearchService_clearCache_def
        FileIndexSearchManager_clearCache_def registerInternalFileSearchProvider_def Let_def)

text \<open>
  A dispatcher whose internal provider holds the key \<open>k\<close> only, and whose index manager
  holds nothing, is asked to clear \<open>key-A\<close>.
\<close>

theorem clearCache_forwarding_witness:
  "''key-A'' \<notin> index_caches (fileIndexSearchManager (example_host [])) \<and>
   internalFileSearchProvider (example_host []) = Some (example_service []) \<and>
   ''key-A'' \<notin> caches (example_service []) \<and>
   fst (clearCache ''key-A'' (example_host [])) = Resolved () \<and>
   calls (snd (clearCache ''key-A'' (example_host []))) =
     calls (example_host []) @ [ClearCacheInternal ''key-A'', ClearCacheFileIndex ''key-A''] \<and>
   fileIndexSearchManager (snd (clearCache ''key-A'' (example_host []))) =
     fileIndexSearchManager (example_host []) \<and>
   internalFileSearchProvider (snd (clearCache ''key-A'' (example_host []))) =
     Some (example_service [])"
proof -
  have a: "''key-A'' \<notin> index_caches (fileIndexSearchManager (example_host []))"
    by (simp add: example_defs register_defs Let_def)
  have b: "internalFileSearchProvider (example_host []) = Some (example_service [])"
    by (simp add: example_defs register_defs Let_def)
  have c: "''key-A'' \<notin> caches (example_service [])"
    by (simp add: example_service_def)
  have e: "SearchService_clearCache ''key-A'' (example_service []) = example_service []"
    by (simp add: SearchService_clearCache_def example_service_def)
  show ?thesis
    using clearCache_forwarding
      [where key = "''key-A''" and this = "example_host []" and sch = "''file''"
         and p = "example_service []" and h = 0] a b c e
    by (simp add: FileIndexSearchManager_clearCache_def)
qed

subsection \<open>Query revival\<close>

text \<open>
  C7. For every transport-safe query with a list of N folder queries, \<open>reviveQuery\<close>
  returns a query with N folder queries, the i-th being the revival of the i-th: its
  root is \<open>URI.revive\<close> of the i-th portable root, which has the components of the
  portable root and is the resource identifier that was serialised. The functions take
  the query only: they read no file system.
\<close>

theorem reviveQuery_folderQueries:
  assumes "folderQueries rawQuery = Some fqs"
  shows "folderQueries (reviveQuery rawQuery) = Some (map reviveFolderQuery fqs) \<and>
         length (map reviveFolderQuery fqs) = length fqs \<and>
         (\<forall>i < length fqs.
            map reviveFolderQuery fqs ! i = reviveFolderQuery (fqs ! i) \<and>
            folder (map reviveFolderQuery fqs ! i) = URI_revive (folder (fqs ! i)) \<and>
            URI_toJSON (folder (map reviveFolderQuery fqs ! i)) = folder (fqs ! i) \<and>
            (\<forall>u. folder (fqs ! i) = URI_toJSON u \<longrightarrow>
                 folder (map reviveFolderQuery fqs ! i) = u))"
  using assms
  by (auto simp: reviveQuery_def reviveFolderQuery_def URI_revive_def URI_toJSON_def)

theorem reviveQuery_folderQueries_witness:
  "folderQueries example_query = Some [example_folder] \<and>
   folderQueries (reviveQuery example_query) = Some [reviveFolderQuery example_folder] \<and>
   folder (reviveFolderQuery example_folder) = URI ''file'' [] ''/w'' [] [] \<and>
   URI_toJSON (URI ''file'' [] ''/w'' [] []) = folder example_folder"
proof -
  have a: "folderQueries example_query = Some [example_folder]"
    by (simp add: example_query_def example_folder_def)
  show ?thesis
    using reviveQuery_folderQueries [OF a] a
    by (simp add: example_folder_def reviveFolderQuery_def URI_revive_def URI_toJSON_def)
qed

text \<open>
  C9. \<open>reviveQuery\<close> returns every property other than \<open>folderQueries\<close> and
  \<open>extraFileResources\<close> as it received it: the limits, the patterns, the flags, and
  whatever else the query carries.
\<close>

theorem reviveQuery_frame:
  "ignoreSymlinks (reviveQuery rawQuery) = ignoreSymlinks rawQuery \<and>
   filePattern (reviveQuery rawQuery) = filePattern rawQuery \<and>
   excludePattern (reviveQuery rawQuery) = excludePattern rawQuery \<and>
   includePattern (reviveQuery rawQuery) = includePattern rawQuery \<and>
   contentPattern (reviveQuery rawQuery) = contentPattern rawQuery \<and>
   maxResults (reviveQuery rawQuery) = maxResults rawQuery \<and>
   exists (reviveQuery rawQuery) = exists rawQuery \<and>
   sortByScore (reviveQuery rawQuery) = sortByScore rawQuery \<and>
   cacheKey (reviveQuery rawQuery) = cacheKey rawQuery \<and>
   maxFileSize (reviveQuery rawQuery) = maxFileSize rawQuery \<and>
   useRipgrep (reviveQuery rawQuery) = useRipgrep rawQuery \<and>
   disregardIgnoreFiles (reviveQuery rawQuery) = disregardIgnoreFiles rawQuery \<and>
   previewOptions (reviveQuery rawQuery) = previewOptions rawQuery \<and>
   disregardGlobalIgnoreFiles (reviveQuery rawQuery) = disregardGlobalIgnoreFiles rawQuery \<and>
   search_query.more (reviveQuery rawQuery) = search_query.more rawQuery"
  by (simp add: reviveQuery_def)

theorem reviveQuery_frame_witness:
  "filePattern (reviveQuery example_query) = Some ''a'' \<and>
   cacheKey (reviveQuery example_query) = Some ''k'' \<and>
   maxResults (reviveQuery example_query) = None"
  using reviveQuery_frame [of example_query] by (simp add: example_query_def)

subsection \<open>The internal file search\<close>

lemma listener_sent:
  "sent (listener E handle session ev r) = sent r @ forwarded E handle session ev"
  by (cases ev) (auto simp: resolve_def reject_def send_def split: promise.splits option.splits)

lemma listener_promise:
  "promise (listener E handle session ev r) =
     (case promise r of Pending \<Rightarrow> settlement [ev] | p \<Rightarrow> p)"
  by (cases ev) (auto simp: resolve_def reject_def send_def split: promise.splits option.splits)

lemma fire_sent:
  "sent (fire E handle session evs r) = sent r @ concat (map (forwarded E handle session) evs)"
  by (induction evs arbitrary: r) (simp_all add: listener_sent)

lemma settlement_Cons:
  "settlement (ev # evs) = (case settlement [ev] of Pending \<Rightarrow> settlement evs | p \<Rightarrow> p)"
  by (cases ev) simp_all

lemma fire_promise:
  "promise (fire E handle session evs r) =
     (case promise r of Pending \<Rightarrow> settlement evs | p \<Rightarrow> p)"
proof (induction evs arbitrary: r)
  case Nil
  show ?case by (simp split: promise.splits)
next
  case (Cons ev evs)
  show ?case
    by (simp add: Cons.IH listener_promise settlement_Cons [of ev evs] split: promise.splits)
qed

lemma request_eqI:
  "promise (r :: 'a request) = p \<Longrightarrow> sent r = cs \<Longrightarrow> r = \<lparr>promise = p, sent = cs\<rparr>"
  by (cases r) simp

lemma settlement_batches:
  "map batch_of evs = map Some bs \<Longrightarrow> settlement (evs @ rest) = settlement rest"
proof (induction evs arbitrary: bs)
  case Nil
  then show ?case by simp
next
  case (Cons ev evs)
  then obtain b bs' where bs: "bs = b # bs'" and b: "batch_of ev = Some b"
    and r: "map batch_of evs = map Some bs'" by (cases bs) auto
  from b show ?case using Cons.IH [OF r] by (cases ev) simp_all
qed

lemma forwarded_batches:
  "map batch_of evs = map Some bs \<Longrightarrow>
   concat (map (forwarded E handle session) evs) =
     map (\<lambda>b. HandleFileMatch handle session (map (\<lambda>m. URI_file E (path m)) b)) bs"
proof (induction evs arbitrary: bs)
  case Nil
  then show ?case by simp
next
  case (Cons ev evs)
  then obtain b bs' where bs: "bs = b # bs'" and b: "batch_of ev = Some b"
    and r: "map batch_of evs = map Some bs'" by (cases bs) auto
  from b bs show ?case using Cons.IH [OF r] by (cases ev) auto
qed

text \<open>
  A request for the internal handle, with a provider in the slot and a list of folder
  queries in the query, is the listener run over the provider's event stream.
\<close>

lemma internal_request:
  assumes "Some handle = internalFileSearchHandle this"
    and "internalFileSearchProvider this = Some provider"
    and "folderQueries rawQuery = Some fqs"
  shows "provideFileSearchResults E this handle session rawQuery =
     fire E handle session
       (fileSearch provider (rawSearch E (reviveQuery rawQuery) (map reviveFolderQuery fqs)))
       \<lparr>promise = Pending, sent = []\<rparr>"
  using assms
  by (simp add: provideFileSearchResults_def doInternalFileSearch_def reviveQuery_def)

lemma example_host_internal:
  "Some 1 = internalFileSearchHandle (example_host evs)"
  "internalFileSearchProvider (example_host evs) = Some (example_service evs)"
  "folderQueries example_query = Some [example_folder]"
  "fileSearch (example_service evs) q = evs"
  by (simp_all add: example_defs register_defs Let_def)

text \<open>
  C1. A file-search request is routed to the internal provider, whose event stream is
  a finite sequence of match-batch events (each a single serialized match or an array)
  followed by one success event. Then \<open>$handleFileMatch\<close> is called once for each batch,
  in the order of the stream, with the handle, the session and the batch's paths as
  resource identifiers, and nothing else is sent; the promise is resolved with the
  statistics of the success event; and it is still pending when the last batch has
  been forwarded.
\<close>

theorem internal_search_batches_then_success:
  assumes "Some handle = internalFileSearchHandle this"
    and "internalFileSearchProvider this = Some provider"
    and "folderQueries rawQuery = Some fqs"
    and "fileSearch provider (rawSearch E (reviveQuery rawQuery) (map reviveFolderQuery fqs)) =
           evs @ [SearchSuccess stats]"
    and "map batch_of evs = map Some bs"
  shows "provideFileSearchResults E this handle session rawQuery =
           \<lparr>promise = Resolved stats,
            sent = map (\<lambda>b. HandleFileMatch handle session (map (\<lambda>m. URI_file E (path m)) b)) bs\<rparr>
         \<and> fire E handle session evs \<lparr>promise = Pending, sent = []\<rparr> =
           \<lparr>promise = Pending,
            sent = map (\<lambda>b. HandleFileMatch handle session (map (\<lambda>m. URI_file E (path m)) b)) bs\<rparr>"
proof
  have "provideFileSearchResults E this handle session rawQuery =
      fire E handle session (evs @ [SearchSuccess stats]) \<lparr>promise = Pending, sent = []\<rparr>"
    using internal_request [OF assms(1-3)] assms(4) by simp
  moreover have "promise (fire E handle session (evs @ [SearchSuccess stats])
      \<lparr>promise = Pending, sent = []\<rparr>) = Resolved stats"
    by (simp add: fire_promise settlement_batches [OF assms(5)])
  moreover have "sent (fire E handle session (evs @ [SearchSuccess stats])
      \<lparr>promise = Pending, sent = []\<rparr>) =
      map (\<lambda>b. HandleFileMatch handle session (map (\<lambda>m. URI_file E (path m)) b)) bs"
    by (simp add: fire_sent forwarded_batches [OF assms(5)])
  ultimately show "provideFileSearchResults E this handle session rawQuery =
           \<lparr>promise = Resolved stats,
            sent = map (\<lambda>b. HandleFileMatch handle session (map (\<lambda>m. URI_file E (path m)) b)) bs\<rparr>"
    by (simp add: request_eqI)
next
  have "settlement evs = Pending"
    using settlement_batches [OF assms(5), of "[]"] by simp
  then have "promise (fire E handle session evs \<lparr>promise = Pending, sent = []\<rparr>) = Pending"
    by (simp add: fire_promise)
  moreover have "sent (fire E handle session evs \<lparr>promise = Pending, sent = []\<rparr>) =
      map (\<lambda>b. HandleFileMatch handle session (map (\<lambda>m. URI_file E (path m)) b)) bs"
    by (simp add: fire_sent forwarded_batches [OF assms(5)])
  ultimately show "fire E handle session evs \<lparr>promise = Pending, sent = []\<rparr> =
           \<lparr>promise = Pending,
            sent = map (\<lambda>b. HandleFileMatch handle session (map (\<lambda>m. URI_file E (path m)) b)) bs\<rparr>"
    by (simp add: request_eqI)
qed

text \<open>
  The internal provider of a dispatcher built with the search switched on (handle 1)
  emits a single match, an array of two matches, and the success event.
\<close>

theorem internal_search_batches_then_success_witness:
  "provideFileSearchResults example_collaborators
     (example_host [FileMatch (SerializedFileMatch ''/w/a''),
        FileMatchArray [SerializedFileMatch ''/w/b'', SerializedFileMatch ''/w/c''],
        SearchSuccess example_stats])
     1 7 example_query =
     \<lparr>promise = Resolved example_stats,
      sent = [HandleFileMatch 1 7 [URI ''file'' [] ''/w/a'' [] []],
              HandleFileMatch 1 7 [URI ''file'' [] ''/w/b'' [] [], URI ''file'' [] ''/w/c'' [] []]]\<rparr>"
proof -
  have b: "map batch_of [FileMatch (SerializedFileMatch ''/w/a''),
        FileMatchArray [SerializedFileMatch ''/w/b'', SerializedFileMatch ''/w/c'']] =
      map Some [[SerializedFileMatch ''/w/a''],
        [SerializedFileMatch ''/w/b'', SerializedFileMatch ''/w/c'']]"
    by simp
  have s: "fileSearch (example_service [FileMatch (SerializedFileMatch ''/w/a''),
        FileMatchArray [SerializedFileMatch ''/w/b'', SerializedFileMatch ''/w/c''],
        SearchSuccess example_stats])
      (rawSearch example_collaborators (reviveQuery example_query)
         (map reviveFolderQuery [example_folder])) =
      [FileMatch (SerializedFileMatch ''/w/a''),
        FileMatchArray [SerializedFileMatch ''/w/b'', SerializedFileMatch ''/w/c'']] @
      [SearchSuccess example_stats]"
    by (simp add: example_service_def)
  show ?thesis
    using internal_search_batches_then_success
      [OF example_host_internal(1) example_host_internal(2) example_host_internal(3) s b,
       where session = 7]
    by (simp add: example_collaborators_def)
qed

text \<open>
  C2 does not hold as stated. The internal provider emits the success event and then
  an array of one match: the promise is resolved by the first event, with nothing sent
  yet, and the match that follows is still forwarded to \<open>$handleFileMatch\<close>.
\<close>

theorem late_match_counterexample:
  "promise (fire example_collaborators 1 7 [SearchSuccess example_stats]
      \<lparr>promise = Pending, sent = []\<rparr>) = Resolved example_stats \<and>
   sent (fire example_collaborators 1 7 [SearchSuccess example_stats]
      \<lparr>promise = Pending, sent = []\<rparr>) = [] \<and>
   provideFileSearchResults example_collaborators
      (example_host [SearchSuccess example_stats,
         FileMatchArray [SerializedFileMatch ''/w/a'']])
      1 7 example_query =
     \<lparr>promise = Resolved example_stats,
      sent = [HandleFileMatch 1 7 [URI ''file'' [] ''/w/a'' [] []]]\<rparr>"
  by (simp add: example_defs register_defs Let_def provideFileSearchResults_def
        doInternalFileSearch_def reviveQuery_def resolve_def send_def)

text \<open>
  C2, amended. For every file-search request routed to the internal provider and every
  finite event sequence the provider emits, the promise settles at most once: at the
  first terminal event of the sequence, resolved with its statistics or rejected with
  its error, and it stays pending when the sequence has no terminal event. Every match
  event of the sequence is forwarded to \<open>$handleFileMatch\<close>, in order, wherever it
  stands in the sequence, and every non-empty message is logged.
\<close>

theorem internal_search_any_stream:
  assumes "Some handle = internalFileSearchHandle this"
    and "internalFileSearchProvider this = Some provider"
    and "folderQueries rawQuery = Some fqs"
    and "fileSearch provider (rawSearch E (reviveQuery rawQuery) (map reviveFolderQuery fqs)) = evs"
  shows "promise (provideFileSearchResults E this handle session rawQuery) = settlement evs \<and>
         sent (provideFileSearchResults E this handle session rawQuery) =
           concat (map (forwarded E handle session) evs)"
  using internal_request [OF assms(1-3)] assms(4)
  by (simp add: fire_promise fire_sent)

text \<open>
  A stream with a message, a match, an error event, a late success event and a late
  match: the promise is rejected with the error, and both matches are forwarded.
\<close>

theorem internal_search_any_stream_witness:
  "promise (provideFileSearchResults example_collaborators
      (example_host [Progress (Some ''scanning''), FileMatch (SerializedFileMatch ''/w/a''),
         SearchError ''failed'', SearchSuccess example_stats,
         FileMatchArray [SerializedFileMatch ''/w/b'']])
      1 7 example_query) = Rejected (SearchErrorEvent ''failed'') \<and>
   sent (provideFileSearchResults example_collaborators
      (example_host [Progress (Some ''scanning''), FileMatch (SerializedFileMatch ''/w/a''),
         SearchError ''failed'', SearchSuccess example_stats,
         FileMatchArray [SerializedFileMatch ''/w/b'']])
      1 7 example_query) =
     [LogDebug ''ExtHostSearch'' ''scanning'',
      HandleFileMatch 1 7 [URI ''file'' [] ''/w/a'' [] []],
      HandleFileMatch 1 7 [URI ''file'' [] ''/w/b'' [] []]]"
  using internal_search_any_stream
    [OF example_host_internal(1) example_host_internal(2) example_host_internal(3)
        example_host_internal(4), where E = example_collaborators and session = 7]
  by (simp add: example_collaborators_def)

subsection \<open>Handles without a provider\<close>




text \<open>
  C4 does not hold as stated. On a fresh dispatcher no text provider is registered
  under handle 0; \<open>$provideTextSearchResults\<close> reads \<open>provideTextSearchResults\<close> of
  \<open>undefined\<close> and throws instead of returning a resolved promise.
\<close>

theorem text_search_absent_provider_counterexample:
  "textSearchProvider blank 0 = None \<and>
   provideTextSearchResults_request example_collaborators blank 0 7 (PatternInfo ''x'')
     example_query = Inl TypeError \<and>
   provideTextSearchResults_request example_collaborators blank 0 7 (PatternInfo ''x'')
     example_query \<noteq> Inr \<lparr>promise = Resolved None, sent = []\<rparr>"
  by (simp add: example_defs provideTextSearchResults_request_def)

text \<open>
  C4, amended. For every text-search request whose handle has a registered text
  provider that lacks \<open>provideTextSearchResults\<close>, the request resolves at once with
  \<open>undefined\<close> and makes no call of \<open>$handleTextMatch\<close>. For a handle with no registered
  text provider the method makes no call of \<open>$handleTextMatch\<close> either, and it does not
  resolve: it throws the TypeError of reading a property of \<open>undefined\<close>.
\<close>

theorem text_search_without_capability:
  "(textSearchProvider this handle = Some provider \<and> provideTextSearchResults provider = None \<longrightarrow>
      provideTextSearchResults_request E this handle session pattern rawQuery =
        Inr \<lparr>promise = Resolved None, sent = []\<rparr>) \<and>
   (textSearchProvider this handle = None \<longrightarrow>
      provideTextSearchResults_request E this handle session pattern rawQuery = Inl TypeError)"
  by (simp add: provideTextSearchResults_request_def)

text \<open>
  The dispatcher built with the search switched on has, under handle 0, a text
  provider without the capability, and nothing under handle 3.
\<close>

theorem text_search_without_capability_witness:
  "textSearchProvider (example_host []) 0 = Some (example_text_provider None) \<and>
   provideTextSearchResults (example_text_provider None) = None \<and>
   provideTextSearchResults_request example_collaborators (example_host []) 0 7
     (PatternInfo ''x'') example_query = Inr \<lparr>promise = Resolved None, sent = []\<rparr> \<and>
   textSearchProvider (example_host []) 3 = None \<and>
   provideTextSearchResults_request example_collaborators (example_host []) 3 7
     (PatternInfo ''x'') example_query = Inl TypeError"
proof -
  have a: "textSearchProvider (example_host []) 0 = Some (example_text_provider None)"
    by (simp add: example_defs register_defs Let_def)
  have b: "provideTextSearchResults (example_text_provider None) = None"
    by (simp add: example_text_provider_def)
  have c: "textSearchProvider (example_host []) 3 = None"
    by (simp add: example_defs register_defs Let_def)
  show ?thesis
    using a b c
      text_search_without_capability
        [of "example_host []" 0 "example_text_provider None" example_collaborators 7
            "PatternInfo ''x''" example_query]
      text_search_without_capability
        [of "example_host []" 3 "example_text_provider None" example_collaborators 7
            "PatternInfo ''x''" example_query]
    by simp
qed

end
